theory Spec2Isabelle
  imports Complex_Main "HOL-Library.Multiset"
begin

section \<open>Previous/next navigation: \<^verbatim>\<open>build/inject-previous-next.ts\<close>\<close>

subsection \<open>Data model\<close>

text \<open>
  A sequence entry is the object literal \<^verbatim>\<open>{ slug: matter.slug, weight: matter.weight }\<close>
  pushed by \<^verbatim>\<open>makeSequence\<close>. The slug is copied from the front matter without a check,
  so it may be \<^verbatim>\<open>undefined\<close>: that is \<open>None\<close>. The weight is a JavaScript number that is
  not \<^verbatim>\<open>NaN\<close>; on those \<^verbatim>\<open><\<close> and \<^verbatim>\<open>>\<close> are the order of the reals.
\<close>

record SequenceEntry =
  slug :: "string option"
  weight :: real

type_synonym Sequence = "SequenceEntry list"

text \<open>
  The object \<^verbatim>\<open>pnEntries\<close>. A field that is \<^verbatim>\<open>null\<close> (or \<^verbatim>\<open>undefined\<close>, which every
  reader of the object treats alike) is \<open>None\<close>.
\<close>

record PreviousNext =
  previous :: "SequenceEntry option"
  "next" :: "SequenceEntry option"

subsection \<open>Array primitives\<close>

text \<open>
  \<^verbatim>\<open>Array.prototype.findIndex\<close>: the index of the first element satisfying the predicate,
  \<open>-1\<close> when there is none. The helper carries the running index \<open>k\<close> of the loop.
\<close>

fun findIndexFrom :: "('a \<Rightarrow> bool) \<Rightarrow> int \<Rightarrow> 'a list \<Rightarrow> int" where
  "findIndexFrom p k [] = - 1"
| "findIndexFrom p k (x # xs) = (if p x then k else findIndexFrom p (k + 1) xs)"

definition findIndex :: "('a \<Rightarrow> bool) \<Rightarrow> 'a list \<Rightarrow> int" where
  "findIndex p xs = findIndexFrom p 0 xs"

text \<open>
  Reading \<^verbatim>\<open>xs[i]\<close>: the element when \<open>0 \<le> i < length\<close>, \<^verbatim>\<open>undefined\<close> (here \<open>None\<close>)
  anywhere else.
\<close>

definition js_index :: "'a list \<Rightarrow> int \<Rightarrow> 'a option" where
  "js_index xs i = (if 0 \<le> i \<and> i < int (length xs) then Some (xs ! nat i) else None)"

subsection \<open>\<^verbatim>\<open>getPreviousNextEntries\<close>\<close>

text \<open>
  \<^verbatim>\<open>page.slug === slug\<close> holds exactly when the entry's slug is the string \<open>s\<close>; an
  \<^verbatim>\<open>undefined\<close> slug equals no string. Both fields start as \<^verbatim>\<open>null\<close> and each is
  overwritten under its own test on \<^verbatim>\<open>pageIndex\<close>.
\<close>

definition getPreviousNextEntries :: "string \<Rightarrow> Sequence \<Rightarrow> PreviousNext" where
  "getPreviousNextEntries s sequence =
     (let pageIndex = findIndex (\<lambda>page. slug page = Some s) sequence in
      \<lparr> previous = (if pageIndex > 0 then js_index sequence (pageIndex - 1) else None),
        next = (if pageIndex < int (length sequence) - 1
                then js_index sequence (pageIndex + 1) else None) \<rparr>)"

subsection \<open>\<^verbatim>\<open>renderButton\<close> and \<^verbatim>\<open>renderButtons\<close>\<close>

text \<open>
  Interpolating a value into a template literal converts it to a string; the slug of an
  entry may be \<^verbatim>\<open>undefined\<close>, which prints as the nine letters of that word.
\<close>

definition toString :: "string option \<Rightarrow> string" where
  "toString v = (case v of None \<Rightarrow> ''undefined'' | Some s \<Rightarrow> s)"

definition renderButton :: "string \<Rightarrow> string option \<Rightarrow> string \<Rightarrow> string" where
  \<open>renderButton loc slg label =
     ''<li><a class="button secondary"''
     @ ''href="/'' @ loc @ ''/docs/'' @ toString slg @ ''">''
     @ ''<span class="button-wrap"> '' @ label @ '' </span></a></li>''\<close>

text \<open>
  \<^verbatim>\<open>String.prototype.split\<close> with a one-character separator (a string without the separator,
  the empty one too, gives the one-element array holding it) and \<^verbatim>\<open>Array.prototype.join\<close>.
\<close>

fun js_split :: "char \<Rightarrow> string \<Rightarrow> string list" where
  "js_split c [] = [[]]"
| "js_split c (x # xs) =
     (if x = c then [] # js_split c xs
      else (case js_split c xs of [] \<Rightarrow> [[x]] | seg # segs \<Rightarrow> (x # seg) # segs))"

fun js_join :: "string \<Rightarrow> string list \<Rightarrow> string" where
  "js_join sep [] = []"
| "js_join sep [x] = x"
| "js_join sep (x # y # ys) = x @ sep @ js_join sep (y # ys)"

text \<open>
  The local constant \<^verbatim>\<open>parentSlug = slug.split("/").slice(0, -1).join("/")\<close>;
  \<^verbatim>\<open>slice(0, -1)\<close> drops the last element, which is \<open>butlast\<close>.
\<close>

definition parentSlug :: "string \<Rightarrow> string" where
  "parentSlug s = js_join ''/'' (butlast (js_split CHR ''/'' s))"

text \<open>
  The document handle \<^verbatim>\<open>$\<close> is modelled by the children of the element the code
  selects, outermost first, each child by its HTML; \<^verbatim>\<open>prepend\<close> puts a new child in
  front. An entry object is truthy, so \<^verbatim>\<open>!pnEntries.previous\<close> holds exactly for \<open>None\<close>.
\<close>

type_synonym html = string
type_synonym document = "html list"

definition renderButtons :: "document \<Rightarrow> string \<Rightarrow> string \<Rightarrow> PreviousNext \<Rightarrow> document" where
  \<open>renderButtons doc loc s pnEntries =
     (if previous pnEntries = None \<and> next pnEntries = None then doc
      else
        let buttons = ''<ul class="prev-next">'';
            buttons = (case previous pnEntries of
                         Some p \<Rightarrow> buttons @ renderButton loc (slug p) ''Previous''
                       | None \<Rightarrow> buttons);
            buttons = buttons @ renderButton loc (Some (parentSlug s)) ''Overview'';
            buttons = (case next pnEntries of
                         Some n \<Rightarrow> buttons @ renderButton loc (slug n) ''Next''
                       | None \<Rightarrow> buttons);
            buttons = buttons @ ''</ul>''
        in buttons # doc)\<close>

subsection \<open>The outside world\<close>

text \<open>
  Errors the code lets escape: a failed file-system call, a JSON syntax error, and the
  \<^verbatim>\<open>TypeError\<close> of reading a property of \<^verbatim>\<open>undefined\<close>.
\<close>

datatype js_error = SystemError | SyntaxError | TypeError

record Dirent =
  d_name :: string
  isDirectory :: bool

text \<open>
  The attributes the front-matter parser returns, as far as the code reads them:
  \<^verbatim>\<open>matter["page-type"]\<close>, \<^verbatim>\<open>matter.weight\<close> and \<^verbatim>\<open>matter.slug\<close>; \<open>None\<close> is \<^verbatim>\<open>undefined\<close>.
  A page type that is not a string behaves like a string other than \<^verbatim>\<open>"guide"\<close>. The
  weight, when present, is a number, as the specification's data model has it.
\<close>

record DocFrontmatter =
  page_type :: "string option"
  matter_weight :: "real option"
  matter_slug :: "string option"

text \<open>
  The status object behind \<^verbatim>\<open>bcd?.data?.__compat?.status\<close>, each flag by its truthiness.
\<close>

record CompatStatus =
  experimental :: bool
  deprecated :: bool

text \<open>
  The table of \<^verbatim>\<open>L10n-Common.json\<close>: message identifier to (locale to string), as the
  key/value pairs of the parsed object. A locale whose value is \<^verbatim>\<open>null\<close> is left out,
  since \<^verbatim>\<open>??\<close> treats \<^verbatim>\<open>null\<close> and \<^verbatim>\<open>undefined\<close> alike.
\<close>

type_synonym l10n_table = "(string \<times> (string \<times> string) list) list"

text \<open>
  The collaborators that are not part of these modules, as parameters. A call that
  throws returns \<open>None\<close>.
  \<^item> \<open>readdirSync\<close>: \<^verbatim>\<open>fs.readdirSync(dir, { withFileTypes: true })\<close>, in scan order;
  \<^item> \<open>readFileSync\<close>: the text of a file;
  \<^item> \<open>path_join\<close>: \<^verbatim>\<open>path.join\<close>;
  \<^item> \<open>frontmatter\<close>: \<^verbatim>\<open>frontmatter(contents).attributes\<close>;
  \<^item> \<open>JSON_parse\<close>: \<^verbatim>\<open>JSON.parse\<close> of the localisation file;
  \<^item> \<open>packageBCD\<close>: the compatibility resolver followed by the optional chain
    \<^verbatim>\<open>?.data?.__compat?.status\<close>, \<open>None\<close> when a link of the chain is missing;
  \<^item> \<open>DEFAULT_LOCALE\<close>: the constant of that name, which the module uses and does
    not declare.
\<close>

record env =
  readdirSync :: "string \<Rightarrow> Dirent list option"
  readFileSync :: "string \<Rightarrow> string option"
  path_join :: "string list \<Rightarrow> string"
  frontmatter :: "string \<Rightarrow> DocFrontmatter option"
  JSON_parse :: "string \<Rightarrow> l10n_table option"
  packageBCD :: "string \<Rightarrow> CompatStatus option"
  DEFAULT_LOCALE :: string

subsection \<open>\<^verbatim>\<open>makeSequence\<close>\<close>

text \<open>
  The body of the \<^verbatim>\<open>try\<close> block for one child: the entry it pushes, or \<open>None\<close> when it
  pushes nothing (the read or the parse threw and the \<^verbatim>\<open>catch\<close> swallowed it, the page
  type is not the string \<^verbatim>\<open>"guide"\<close>, or the weight is \<^verbatim>\<open>undefined\<close>).
\<close>

definition childEntry :: "env \<Rightarrow> string \<Rightarrow> Dirent \<Rightarrow> SequenceEntry option" where
  "childEntry w parent child =
     (case readFileSync w (path_join w [parent, d_name child, ''index.md'']) of
        None \<Rightarrow> None
      | Some contents \<Rightarrow>
          (case frontmatter w contents of
             None \<Rightarrow> None
           | Some matter \<Rightarrow>
               (if page_type matter = Some ''guide''
                then (case matter_weight matter of
                        None \<Rightarrow> None
                      | Some wt \<Rightarrow> Some \<lparr> slug = matter_slug matter, weight = wt \<rparr>)
                else None)))"

text \<open>One round of the \<^verbatim>\<open>for\<close> loop: \<^verbatim>\<open>sequence.push\<close> appends at the end.\<close>

definition visitChild :: "env \<Rightarrow> string \<Rightarrow> Sequence \<Rightarrow> Dirent \<Rightarrow> Sequence" where
  "visitChild w parent sequence child =
     (case childEntry w parent child of None \<Rightarrow> sequence | Some e \<Rightarrow> sequence @ [e])"

text \<open>The array \<^verbatim>\<open>sequence\<close> when the loop over \<^verbatim>\<open>children\<close> ends: the entries in scan order.\<close>

definition scanEntries :: "env \<Rightarrow> string \<Rightarrow> Dirent list \<Rightarrow> Sequence" where
  "scanEntries w parent children = foldl (visitChild w parent) [] children"

text \<open>The comparison function handed to \<^verbatim>\<open>sort\<close>.\<close>

definition weightCompare :: "SequenceEntry \<Rightarrow> SequenceEntry \<Rightarrow> int" where
  "weightCompare a b =
     (if weight a > weight b then 1 else if weight a < weight b then - 1 else 0)"

text \<open>
  \<^verbatim>\<open>Array.prototype.sort\<close> with a comparison function. The language standard (from
  ECMAScript 2019 on) requires the sort to be stable, and for a comparison function that
  is a consistent order that fixes the result; it is computed here by insertion, an
  element going in front of the first one it does not compare greater than.
\<close>

fun insertBy :: "('a \<Rightarrow> 'a \<Rightarrow> int) \<Rightarrow> 'a \<Rightarrow> 'a list \<Rightarrow> 'a list" where
  "insertBy cmp x [] = [x]"
| "insertBy cmp x (y # ys) = (if cmp x y \<le> 0 then x # y # ys else y # insertBy cmp x ys)"

definition js_sort :: "('a \<Rightarrow> 'a \<Rightarrow> int) \<Rightarrow> 'a list \<Rightarrow> 'a list" where
  "js_sort cmp xs = foldr (insertBy cmp) xs []"

text \<open>
  \<^verbatim>\<open>makeSequence\<close>. The call of \<^verbatim>\<open>readdirSync\<close> stands outside the \<^verbatim>\<open>try\<close>, so its failure
  escapes.
\<close>

definition makeSequence :: "env \<Rightarrow> string \<Rightarrow> js_error + Sequence" where
  "makeSequence w parent =
     (case readdirSync w parent of
        None \<Rightarrow> Inl SystemError
      | Some entries \<Rightarrow>
          (let children = filter isDirectory entries;
               sequence = scanEntries w parent children
           in if length children = length sequence
              then Inr (js_sort weightCompare sequence)
              else Inr []))"

text \<open>
  In the words of the specification: a child contributes an entry when its content
  document can be read and parsed, its page type is "guide" and its weight is present.
\<close>

definition contributes :: "env \<Rightarrow> string \<Rightarrow> Dirent \<Rightarrow> bool" where
  "contributes w parent child =
     (case readFileSync w (path_join w [parent, d_name child, ''index.md'']) of
        None \<Rightarrow> False
      | Some contents \<Rightarrow>
          (case frontmatter w contents of
             None \<Rightarrow> False
           | Some matter \<Rightarrow> page_type matter = Some ''guide'' \<and> matter_weight matter \<noteq> None))"

subsection \<open>The sequence cache and \<^verbatim>\<open>injectPreviousNext\<close>\<close>

text \<open>
  The module-level object \<^verbatim>\<open>pageSequences\<close>, a map from the parent path to its sequence.
  The field \<open>scanned\<close> is not in the source: it records, in order, every directory handed
  to \<^verbatim>\<open>makeSequence\<close> whose scan returned, so that a statement can count the scans.
\<close>

record build_state =
  pageSequences :: "string \<rightharpoonup> Sequence"
  scanned :: "string list"

text \<open>
  Lines 156 to 162 of \<^verbatim>\<open>injectPreviousNext\<close>. Every stored value is an array and every
  array is truthy, the empty one too, so \<^verbatim>\<open>!sequence\<close> holds exactly when the key has no
  value. (The keys are results of \<^verbatim>\<open>path.join(..., "../")\<close>; none is the name of a
  property every object inherits.)
\<close>

definition cachedSequence ::
  "env \<Rightarrow> build_state \<Rightarrow> string \<Rightarrow> js_error + Sequence \<times> build_state" where
  "cachedSequence w st parent =
     (case pageSequences st parent of
        Some sequence \<Rightarrow> Inr (sequence, st)
      | None \<Rightarrow>
          (case makeSequence w parent of
             Inl e \<Rightarrow> Inl e
           | Inr sequence \<Rightarrow>
               Inr (sequence,
                    st \<lparr> pageSequences := (pageSequences st)(parent \<mapsto> sequence),
                         scanned := scanned st @ [parent] \<rparr>)))"

record FileInfo =
  fi_root :: string
  fi_folder :: string

definition injectPreviousNext ::
  "env \<Rightarrow> build_state \<Rightarrow> document \<Rightarrow> string \<Rightarrow> FileInfo \<Rightarrow> string
     \<Rightarrow> js_error + document \<times> build_state" where
  "injectPreviousNext w st doc loc fileInfo s =
     (let parent = path_join w [fi_root fileInfo, fi_folder fileInfo, ''../''] in
      case cachedSequence w st parent of
        Inl e \<Rightarrow> Inl e
      | Inr (sequence, st') \<Rightarrow>
          Inr (renderButtons doc loc s (getPreviousNextEntries s sequence), st'))"

section \<open>Banners: the module that exports \<^verbatim>\<open>injectBanners\<close>\<close>

text \<open>
  The module-level variable \<^verbatim>\<open>l10nStrings\<close> is passed in and returned.
  \<^verbatim>\<open>initL10nStrings\<close> loads the table when the variable holds an object without keys.
\<close>

definition initL10nStrings :: "env \<Rightarrow> string \<Rightarrow> l10n_table \<Rightarrow> js_error + l10n_table" where
  "initL10nStrings w rt l10nStrings =
     (if l10nStrings = [] then
        (case readFileSync w (path_join w [rt, ''jsondata'', ''L10n-Common.json'']) of
           None \<Rightarrow> Inl SystemError
         | Some text \<Rightarrow>
             (case JSON_parse w text of None \<Rightarrow> Inl SyntaxError | Some table \<Rightarrow> Inr table))
      else Inr l10nStrings)"

text \<open>
  \<^verbatim>\<open>getL10nString\<close>. When the table has no entry for the identifier, \<^verbatim>\<open>block\<close> is
  \<^verbatim>\<open>undefined\<close> and reading \<^verbatim>\<open>block[locale]\<close> throws. The result \<open>None\<close> is \<^verbatim>\<open>null\<close>.
\<close>

definition getL10nString :: "env \<Rightarrow> l10n_table \<Rightarrow> string \<Rightarrow> string \<Rightarrow> js_error + string option" where
  "getL10nString w l10nStrings ident loc =
     (case map_of l10nStrings ident of
        None \<Rightarrow> Inl TypeError
      | Some block \<Rightarrow>
          Inr (case map_of block loc of
                 Some message \<Rightarrow> Some message
               | None \<Rightarrow> map_of block (DEFAULT_LOCALE w)))"

text \<open>
  \<^verbatim>\<open>injectBanner\<close>, on the children of \<^verbatim>\<open>div#_body\<close>. A message is truthy when it is a
  string that is not empty.
\<close>

definition injectBanner ::
  "env \<Rightarrow> l10n_table \<Rightarrow> document \<Rightarrow> string \<Rightarrow> string \<Rightarrow> string \<Rightarrow> js_error + document" where
  \<open>injectBanner w l10nStrings doc loc messageId bannerClass =
     (case getL10nString w l10nStrings messageId loc of
        Inl e \<Rightarrow> Inl e
      | Inr message \<Rightarrow>
          (case message of
             None \<Rightarrow> Inr doc
           | Some m \<Rightarrow>
               (if m \<noteq> [] then
                  Inr ((''<div class="notecard '' @ bannerClass @ ''">'' @ m @ ''</div>'') # doc)
                else Inr doc)))\<close>

text \<open>
  The value of \<^verbatim>\<open>metadata["browser-compat"]\<close>: a query string or an array of them; and the
  metadata record as far as the code reads it, \<open>None\<close> for a missing key.
\<close>

datatype bcd_value = BcdString string | BcdArray "string list"

record PageMetadata =
  security_requirements :: "string list option"
  browser_compat :: "bcd_value option"

text \<open>
  Lines 48 to 54: the two banners driven by the resolved status \<^verbatim>\<open>bcd\<close>, the second
  prepended to what the first left.
\<close>

definition bcdBanners ::
  "env \<Rightarrow> l10n_table \<Rightarrow> document \<Rightarrow> string \<Rightarrow> string \<Rightarrow> js_error + document" where
  "bcdBanners w l10nStrings doc loc bcdQuery =
     (let bcd = packageBCD w bcdQuery in
      case (if (case bcd of None \<Rightarrow> False | Some status \<Rightarrow> experimental status)
            then injectBanner w l10nStrings doc loc ''ExperimentalBanner'' ''experimental''
            else Inr doc) of
        Inl e \<Rightarrow> Inl e
      | Inr doc1 \<Rightarrow>
          (if (case bcd of None \<Rightarrow> False | Some status \<Rightarrow> deprecated status)
           then injectBanner w l10nStrings doc1 loc ''DeprecatedBanner'' ''deprecated''
           else Inr doc1))"

text \<open>
  Line 38: an array is truthy, the empty one too, and \<^verbatim>\<open>includes\<close> is membership.
\<close>

definition secureBanner ::
  "env \<Rightarrow> l10n_table \<Rightarrow> document \<Rightarrow> string \<Rightarrow> PageMetadata \<Rightarrow> js_error + document" where
  "secureBanner w l10nStrings doc loc metadata =
     (case security_requirements metadata of
        None \<Rightarrow> Inr doc
      | Some security \<Rightarrow>
          (if ''secure-context'' \<in> set security
           then injectBanner w l10nStrings doc loc ''SecureContextBanner'' ''secure''
           else Inr doc))"

text \<open>
  \<^verbatim>\<open>injectBanners\<close>. The test \<^verbatim>\<open>bcdQuery && !Array.isArray(bcdQuery)\<close> passes for a string
  that is not empty and for nothing else.
\<close>

definition injectBanners ::
  "env \<Rightarrow> l10n_table \<Rightarrow> document \<Rightarrow> string \<Rightarrow> string \<Rightarrow> PageMetadata
     \<Rightarrow> js_error + document \<times> l10n_table" where
  "injectBanners w l10nStrings doc rt loc metadata =
     (case initL10nStrings w rt l10nStrings of
        Inl e \<Rightarrow> Inl e
      | Inr table \<Rightarrow>
          (case secureBanner w table doc loc metadata of
             Inl e \<Rightarrow> Inl e
           | Inr doc1 \<Rightarrow>
               (case browser_compat metadata of
                  Some (BcdString bcdQuery) \<Rightarrow>
                    (if bcdQuery \<noteq> [] then
                       (case bcdBanners w table doc1 loc bcdQuery of
                          Inl e \<Rightarrow> Inl e
                        | Inr doc2 \<Rightarrow> Inr (doc2, table))
                     else Inr (doc1, table))
                | Some (BcdArray queries) \<Rightarrow> Inr (doc1, table)
                | None \<Rightarrow> Inr (doc1, table))))"

section \<open>A small concrete world\<close>

text \<open>
  Four parent directories, used to run the definitions on concrete inputs:
  \<^verbatim>\<open>/docs/ok\<close> (two guides with weights 2 and 1 around a plain file), \<^verbatim>\<open>/docs/ties\<close> (three
  guides, two of them with weight 1), \<^verbatim>\<open>/docs/mixed\<close> (a guide, a landing page and a
  directory without a document) and \<^verbatim>\<open>/docs/noslug\<close> (one guide whose front matter has no
  slug). A file's text stands for itself; the parser is the table \<open>exampleMatter\<close>.
\<close>

definition exampleDirs :: "(string \<times> Dirent list) list" where
  "exampleDirs =
     [(''/docs/ok'',
         [\<lparr> d_name = ''zeta'', isDirectory = True \<rparr>,
          \<lparr> d_name = ''README.md'', isDirectory = False \<rparr>,
          \<lparr> d_name = ''alpha'', isDirectory = True \<rparr>]),
      (''/docs/ties'',
         [\<lparr> d_name = ''first'', isDirectory = True \<rparr>,
          \<lparr> d_name = ''low'', isDirectory = True \<rparr>,
          \<lparr> d_name = ''second'', isDirectory = True \<rparr>]),
      (''/docs/mixed'',
         [\<lparr> d_name = ''intro'', isDirectory = True \<rparr>,
          \<lparr> d_name = ''landing'', isDirectory = True \<rparr>,
          \<lparr> d_name = ''assets'', isDirectory = True \<rparr>]),
      (''/docs/noslug'',
         [\<lparr> d_name = ''page'', isDirectory = True \<rparr>])]"

definition exampleFiles :: "(string \<times> string) list" where
  "exampleFiles =
     [(''/docs/ok/zeta/index.md'', ''ok-zeta''),
      (''/docs/ok/alpha/index.md'', ''ok-alpha''),
      (''/docs/ties/first/index.md'', ''ties-first''),
      (''/docs/ties/low/index.md'', ''ties-low''),
      (''/docs/ties/second/index.md'', ''ties-second''),
      (''/docs/mixed/intro/index.md'', ''mixed-intro''),
      (''/docs/mixed/landing/index.md'', ''mixed-landing''),
      (''/docs/noslug/page/index.md'', ''noslug-page''),
      (''/docs/jsondata/L10n-Common.json'', ''l10n-common'')]"

definition exampleMatter :: "(string \<times> DocFrontmatter) list" where
  "exampleMatter =
     [(''ok-zeta'',
         \<lparr> page_type = Some ''guide'', matter_weight = Some 2, matter_slug = Some ''Ok/Zeta'' \<rparr>),
      (''ok-alpha'',
         \<lparr> page_type = Some ''guide'', matter_weight = Some 1, matter_slug = Some ''Ok/Alpha'' \<rparr>),
      (''ties-first'',
         \<lparr> page_type = Some ''guide'', matter_weight = Some 1, matter_slug = Some ''Ties/First'' \<rparr>),
      (''ties-low'',
         \<lparr> page_type = Some ''guide'', matter_weight = Some 0, matter_slug = Some ''Ties/Low'' \<rparr>),
      (''ties-second'',
         \<lparr> page_type = Some ''guide'', matter_weight = Some 1, matter_slug = Some ''Ties/Second'' \<rparr>),
      (''mixed-intro'',
         \<lparr> page_type = Some ''guide'', matter_weight = Some 1, matter_slug = Some ''Mixed/Intro'' \<rparr>),
      (''mixed-landing'',
         \<lparr> page_type = Some ''landing-page'', matter_weight = None,
           matter_slug = Some ''Mixed/Landing'' \<rparr>),
      (''noslug-page'',
         \<lparr> page_type = Some ''guide'', matter_weight = Some 3, matter_slug = None \<rparr>)]"

definition exampleTable :: l10n_table where
  "exampleTable =
     [(''SecureContextBanner'', [(''en-US'', ''Secure context.''), (''fr'', ''Contexte securise.'')]),
      (''ExperimentalBanner'', [(''en-US'', ''Experimental.'')]),
      (''DeprecatedBanner'', [(''en-US'', ''Deprecated.''), (''de'', [])])]"

definition exampleWorld :: env where
  "exampleWorld =
     \<lparr> readdirSync = map_of exampleDirs,
       readFileSync = map_of exampleFiles,
       path_join = js_join ''/'',
       frontmatter = map_of exampleMatter,
       JSON_parse = map_of [(''l10n-common'', exampleTable)],
       packageBCD = map_of [(''api.Foo'', \<lparr> experimental = True, deprecated = True \<rparr>)],
       DEFAULT_LOCALE = ''en-US'' \<rparr>"

text \<open>A world in which every call fails: nothing can be read from it.\<close>

definition deadWorld :: env where
  "deadWorld =
     \<lparr> readdirSync = (\<lambda>_. None),
       readFileSync = (\<lambda>_. None),
       path_join = js_join ''/'',
       frontmatter = (\<lambda>_. None),
       JSON_parse = (\<lambda>_. None),
       packageBCD = (\<lambda>_. None),
       DEFAULT_LOCALE = ''en-US'' \<rparr>"

section \<open>Properties of the navigation resolver\<close>

lemma findIndexFrom_absent:
  "\<forall>x \<in> set xs. \<not> p x \<Longrightarrow> findIndexFrom p k xs = - 1"
  by (induction xs arbitrary: k) simp_all

lemma findIndex_absent:
  "\<forall>x \<in> set xs. \<not> p x \<Longrightarrow> findIndex p xs = - 1"
  by (simp add: findIndex_def findIndexFrom_absent)

text \<open>
  What the code does for a slug that no entry carries: \<^verbatim>\<open>findIndex\<close> gives \<open>-1\<close>, the test
  \<^verbatim>\<open>pageIndex > 0\<close> fails, and the test \<^verbatim>\<open>pageIndex < sequence.length - 1\<close> succeeds as soon
  as the sequence has an entry, so \<^verbatim>\<open>next\<close> becomes the first entry of the sequence.
\<close>

lemma getPreviousNextEntries_absent:
  assumes "\<forall>e \<in> set sequence. slug e \<noteq> Some s"
  shows "getPreviousNextEntries s sequence =
           \<lparr> previous = None, next = (case sequence of [] \<Rightarrow> None | e # _ \<Rightarrow> Some e) \<rparr>"
proof -
  have "findIndex (\<lambda>page. slug page = Some s) sequence = - 1"
    using assms by (intro findIndex_absent) simp
  then show ?thesis
    by (cases sequence) (simp_all add: getPreviousNextEntries_def js_index_def)
qed

text \<open>
  Claim C1 says that a slug absent from the sequence gives \<^verbatim>\<open>previous = null\<close> and
  \<^verbatim>\<open>next = null\<close> for every sequence, also a non-empty one. On the one-entry sequence
  \<^verbatim>\<open>[{slug: "a", weight: 1}]\<close> and the slug \<^verbatim>\<open>"z"\<close> the code returns the entry \<^verbatim>\<open>"a"\<close> as
  \<^verbatim>\<open>next\<close>: the result of \<^verbatim>\<open>findIndex\<close> is never compared with \<open>-1\<close>.
\<close>

theorem absent_slug_next_is_first_entry:
  "getPreviousNextEntries ''z'' [\<lparr> slug = Some ''a'', weight = 1 \<rparr>]
     = \<lparr> previous = None, next = Some \<lparr> slug = Some ''a'', weight = 1 \<rparr> \<rparr>"
  by (simp add: getPreviousNextEntries_def findIndex_def js_index_def)

text \<open>
  Rendered, such a page gets a Next button that leads to the first page of the sequence.
\<close>

lemma getPreviousNextEntries_absent_renders_next:
  \<open>renderButtons [] ''en-US'' ''Ok/Other''
      (getPreviousNextEntries ''Ok/Other''
         [\<lparr> slug = Some ''Ok/Alpha'', weight = 1 \<rparr>, \<lparr> slug = Some ''Ok/Zeta'', weight = 2 \<rparr>])
    = [''<ul class="prev-next">''
        @ ''<li><a class="button secondary"href="/en-US/docs/Ok">''
        @ ''<span class="button-wrap"> Overview </span></a></li>''
        @ ''<li><a class="button secondary"href="/en-US/docs/Ok/Alpha">''
        @ ''<span class="button-wrap"> Next </span></a></li>''
        @ ''</ul>'']\<close>
  by (simp add: renderButtons_def getPreviousNextEntries_def findIndex_def js_index_def
      renderButton_def toString_def parentSlug_def)

section \<open>Properties of sorting and of the directory scan\<close>

text \<open>
  The sort keeps the entries (as a multiset), orders them by weight, and keeps the entries
  of one weight in the order they had; the loop collects, in scan order, the entries of
  the children that contribute one.
\<close>

lemma mset_insertBy: "mset (insertBy cmp x xs) = add_mset x (mset xs)"
  by (induction xs) simp_all

lemma mset_js_sort: "mset (js_sort cmp xs) = mset xs"
  by (induction xs) (simp_all add: js_sort_def mset_insertBy)

lemma set_js_sort: "set (js_sort cmp xs) = set xs"
  using mset_js_sort [of cmp xs] by (metis set_mset_mset)

lemma length_js_sort: "length (js_sort cmp xs) = length xs"
  using mset_js_sort [of cmp xs] by (metis size_mset)

lemma weightCompare_le: "weightCompare a b \<le> 0 \<longleftrightarrow> weight a \<le> weight b"
  by (simp add: weightCompare_def)

lemma set_insertBy: "set (insertBy cmp x xs) = insert x (set xs)"
  by (induction xs) auto

lemma sorted_insertBy:
  "sorted (map weight (insertBy weightCompare x xs)) = sorted (map weight xs)"
  by (induction xs) (auto simp: weightCompare_le set_insertBy)

lemma sorted_js_sort: "sorted (map weight (js_sort weightCompare xs))"
  by (induction xs) (simp_all add: js_sort_def sorted_insertBy)

lemma filter_insertBy:
  "sorted (map weight xs) \<Longrightarrow>
   filter (\<lambda>e. weight e = k) (insertBy weightCompare x xs)
     = (if weight x = k then x # filter (\<lambda>e. weight e = k) xs
        else filter (\<lambda>e. weight e = k) xs)"
  by (induction xs) (auto simp: weightCompare_le)

lemma filter_js_sort:
  "filter (\<lambda>e. weight e = k) (js_sort weightCompare xs) = filter (\<lambda>e. weight e = k) xs"
proof (induction xs)
  case Nil
  show ?case by (simp add: js_sort_def)
next
  case (Cons x xs)
  have "js_sort weightCompare (x # xs) = insertBy weightCompare x (js_sort weightCompare xs)"
    by (simp add: js_sort_def)
  then show ?case
    using Cons filter_insertBy [OF sorted_js_sort, of k x xs] by simp
qed

lemma strict_js_sort:
  assumes "distinct (map weight xs)"
  shows "sorted_wrt (<) (map weight (js_sort weightCompare xs))"
proof -
  have "mset (map weight (js_sort weightCompare xs)) = mset (map weight xs)"
    by (simp add: mset_js_sort)
  then have "distinct (map weight (js_sort weightCompare xs))"
    using assms by (metis mset_eq_imp_distinct_iff)
  then show ?thesis
    using sorted_js_sort [of xs] by (simp add: strict_sorted_iff)
qed

lemma foldl_visitChild:
  "foldl (visitChild w parent) acc children
     = acc @ List.map_filter (childEntry w parent) children"
  by (induction children arbitrary: acc)
     (simp_all add: visitChild_def split: option.split)

lemma scanEntries_map_filter:
  "scanEntries w parent children = List.map_filter (childEntry w parent) children"
  by (simp add: scanEntries_def foldl_visitChild)

lemma contributes_iff: "contributes w parent child \<longleftrightarrow> childEntry w parent child \<noteq> None"
  by (simp add: contributes_def childEntry_def split: option.split)

lemma length_scanEntries:
  "length (scanEntries w parent children) = length (filter (contributes w parent) children)"
  by (induction children)
     (simp_all add: scanEntries_map_filter contributes_iff split: option.split)

lemma scanEntries_all:
  "\<forall>c \<in> set children. contributes w parent c \<Longrightarrow>
   map Some (scanEntries w parent children) = map (childEntry w parent) children"
  by (induction children)
     (auto simp: scanEntries_map_filter contributes_iff split: option.split)

section \<open>A directory in which every child contributes\<close>

lemmas example_defs =
  exampleWorld_def exampleDirs_def exampleFiles_def exampleMatter_def exampleTable_def

lemma distinct_map_Some: "distinct (map Some ys) \<longleftrightarrow> distinct ys"
  by (induction ys) auto

lemma map_filter_member:
  "f x = Some y \<Longrightarrow> x \<in> set xs \<Longrightarrow> y \<in> set (List.map_filter f xs)"
  by (induction xs) (auto split: option.split)

lemma makeSequence_valid:
  assumes "readdirSync w parent = Some entries"
    and "\<forall>c \<in> set (filter isDirectory entries). contributes w parent c"
  shows "makeSequence w parent
           = Inr (js_sort weightCompare (scanEntries w parent (filter isDirectory entries)))"
proof -
  have "filter (contributes w parent) (filter isDirectory entries) = filter isDirectory entries"
    using assms(2) by (intro filter_True) simp
  then have "length (scanEntries w parent (filter isDirectory entries))
               = length (filter isDirectory entries)"
    by (simp only: length_scanEntries)
  then show ?thesis
    using assms(1) by (simp add: makeSequence_def)
qed

section \<open>Validity is all or nothing\<close>

text \<open>
  Claim C2. When the parent directory can be scanned and at least one of its immediate
  subdirectories contributes no entry (its document cannot be read or parsed, its page
  type is not "guide", or it has no weight), \<^verbatim>\<open>makeSequence\<close> returns the empty list, never
  the entries of the other children.
\<close>

theorem makeSequence_all_or_nothing:
  assumes "readdirSync w parent = Some entries"
    and "child \<in> set entries" and "isDirectory child"
    and "\<not> contributes w parent child"
  shows "makeSequence w parent = Inr []"
proof -
  let ?children = "filter isDirectory entries"
  have "child \<in> set ?children"
    using assms(2,3) by simp
  then have "length (filter (contributes w parent) ?children) < length ?children"
    using assms(4) by (rule length_filter_less)
  then have "length ?children \<noteq> length (scanEntries w parent ?children)"
    by (simp only: length_scanEntries)
  then show ?thesis
    using assms(1) by (simp add: makeSequence_def)
qed

theorem makeSequence_all_or_nothing_witness:
  "readdirSync exampleWorld ''/docs/mixed''
     = Some [\<lparr> d_name = ''intro'', isDirectory = True \<rparr>,
             \<lparr> d_name = ''landing'', isDirectory = True \<rparr>,
             \<lparr> d_name = ''assets'', isDirectory = True \<rparr>]
   \<and> contributes exampleWorld ''/docs/mixed'' \<lparr> d_name = ''intro'', isDirectory = True \<rparr>
   \<and> \<not> contributes exampleWorld ''/docs/mixed'' \<lparr> d_name = ''landing'', isDirectory = True \<rparr>
   \<and> makeSequence exampleWorld ''/docs/mixed'' = Inr []"
proof -
  have dir: "readdirSync exampleWorld ''/docs/mixed''
     = Some [\<lparr> d_name = ''intro'', isDirectory = True \<rparr>,
             \<lparr> d_name = ''landing'', isDirectory = True \<rparr>,
             \<lparr> d_name = ''assets'', isDirectory = True \<rparr>]"
    by (simp add: example_defs)
  have yes: "contributes exampleWorld ''/docs/mixed'' \<lparr> d_name = ''intro'', isDirectory = True \<rparr>"
    by (simp add: contributes_def example_defs)
  have no: "\<not> contributes exampleWorld ''/docs/mixed'' \<lparr> d_name = ''landing'', isDirectory = True \<rparr>"
    by (simp add: contributes_def example_defs)
  have "makeSequence exampleWorld ''/docs/mixed'' = Inr []"
    using makeSequence_all_or_nothing [OF dir _ _ no] by simp
  with dir yes no show ?thesis by simp
qed

section \<open>A valid directory gives every child, in ascending order of weight\<close>

text \<open>
  Claim C5. When every immediate subdirectory of the parent contributes an entry and the
  weights of the children are pairwise distinct, \<^verbatim>\<open>makeSequence\<close> returns a sequence with
  as many entries as there are children, holding exactly the entries of the children, with
  strictly ascending weights.
\<close>

theorem makeSequence_distinct_weights_sorted:
  assumes "readdirSync w parent = Some entries"
    and "children = filter isDirectory entries"
    and "\<forall>c \<in> set children. contributes w parent c"
    and "distinct (map (\<lambda>c. map_option weight (childEntry w parent c)) children)"
  shows "\<exists>s. makeSequence w parent = Inr s
             \<and> length s = length children
             \<and> mset (map Some s) = mset (map (childEntry w parent) children)
             \<and> sorted_wrt (<) (map weight s)"
proof -
  let ?scan = "scanEntries w parent children"
  let ?s = "js_sort weightCompare ?scan"
  have scan: "map Some ?scan = map (childEntry w parent) children"
    using assms(3) by (rule scanEntries_all)
  have ret: "makeSequence w parent = Inr ?s"
    using assms(1,3) unfolding assms(2) by (rule makeSequence_valid)
  have len: "length ?s = length children"
    using arg_cong [OF scan, of length] by (simp add: length_js_sort)
  have "mset (map Some ?s) = image_mset Some (mset ?scan)"
    by (simp add: mset_js_sort)
  also have "\<dots> = mset (map Some ?scan)"
    by simp
  finally have perm: "mset (map Some ?s) = mset (map (childEntry w parent) children)"
    by (simp only: scan)
  have "map (map_option weight) (map Some ?scan)
          = map (\<lambda>c. map_option weight (childEntry w parent c)) children"
    by (simp only: scan) simp
  then have "distinct (map (map_option weight) (map Some ?scan))"
    using assms(4) by simp
  then have "distinct (map Some (map weight ?scan))"
    by (simp add: comp_def)
  then have "distinct (map weight ?scan)"
    by (simp only: distinct_map_Some)
  then have "sorted_wrt (<) (map weight ?s)"
    by (rule strict_js_sort)
  with ret len perm show ?thesis by blast
qed

theorem makeSequence_distinct_weights_sorted_witness:
  "contributes exampleWorld ''/docs/ok'' \<lparr> d_name = ''zeta'', isDirectory = True \<rparr>
   \<and> contributes exampleWorld ''/docs/ok'' \<lparr> d_name = ''alpha'', isDirectory = True \<rparr>
   \<and> (\<exists>s. makeSequence exampleWorld ''/docs/ok'' = Inr s
          \<and> length s = 2
          \<and> mset (map Some s)
              = mset (map (childEntry exampleWorld ''/docs/ok'')
                       [\<lparr> d_name = ''zeta'', isDirectory = True \<rparr>,
                        \<lparr> d_name = ''alpha'', isDirectory = True \<rparr>])
          \<and> sorted_wrt (<) (map weight s))
   \<and> makeSequence exampleWorld ''/docs/ok''
       = Inr [\<lparr> slug = Some ''Ok/Alpha'', weight = 1 \<rparr>, \<lparr> slug = Some ''Ok/Zeta'', weight = 2 \<rparr>]"
proof -
  let ?zeta = "\<lparr> d_name = ''zeta'', isDirectory = True \<rparr>"
  let ?alpha = "\<lparr> d_name = ''alpha'', isDirectory = True \<rparr>"
  have dir: "readdirSync exampleWorld ''/docs/ok''
               = Some [?zeta, \<lparr> d_name = ''README.md'', isDirectory = False \<rparr>, ?alpha]"
    by (simp add: example_defs)
  have ch: "[?zeta, ?alpha]
              = filter isDirectory [?zeta, \<lparr> d_name = ''README.md'', isDirectory = False \<rparr>, ?alpha]"
    by simp
  have c1: "contributes exampleWorld ''/docs/ok'' ?zeta"
    by (simp add: contributes_def example_defs)
  have c2: "contributes exampleWorld ''/docs/ok'' ?alpha"
    by (simp add: contributes_def example_defs)
  have all: "\<forall>c \<in> set [?zeta, ?alpha]. contributes exampleWorld ''/docs/ok'' c"
    using c1 c2 by simp
  have dist: "distinct (map (\<lambda>c. map_option weight (childEntry exampleWorld ''/docs/ok'' c))
                          [?zeta, ?alpha])"
    by (simp add: childEntry_def example_defs)
  have run: "makeSequence exampleWorld ''/docs/ok''
       = Inr [\<lparr> slug = Some ''Ok/Alpha'', weight = 1 \<rparr>, \<lparr> slug = Some ''Ok/Zeta'', weight = 2 \<rparr>]"
    by (simp add: makeSequence_def scanEntries_def visitChild_def childEntry_def js_sort_def
        weightCompare_def example_defs)
  show ?thesis
    using makeSequence_distinct_weights_sorted [OF dir ch all dist] c1 c2 run by simp
qed

section \<open>The sort is stable\<close>

text \<open>
  Claim C6. For a valid directory the returned sequence is a rearrangement of the entries
  in scan order (which are the children's entries in the order \<^verbatim>\<open>readdirSync\<close> lists the
  children), and for every weight \<open>k\<close> the entries of weight \<open>k\<close> stand in the result in
  the same order as in the scan: entries of equal weight keep their relative order.
\<close>

theorem makeSequence_stable:
  assumes "readdirSync w parent = Some entries"
    and "children = filter isDirectory entries"
    and "\<forall>c \<in> set children. contributes w parent c"
  shows "\<exists>s. makeSequence w parent = Inr s
             \<and> map Some (scanEntries w parent children) = map (childEntry w parent) children
             \<and> mset s = mset (scanEntries w parent children)
             \<and> (\<forall>k. filter (\<lambda>e. weight e = k) s
                      = filter (\<lambda>e. weight e = k) (scanEntries w parent children))"
proof -
  let ?scan = "scanEntries w parent children"
  have "makeSequence w parent = Inr (js_sort weightCompare ?scan)"
    using assms(1,3) unfolding assms(2) by (rule makeSequence_valid)
  moreover have "map Some ?scan = map (childEntry w parent) children"
    using assms(3) by (rule scanEntries_all)
  moreover have "mset (js_sort weightCompare ?scan) = mset ?scan"
    by (rule mset_js_sort)
  moreover have "\<forall>k. filter (\<lambda>e. weight e = k) (js_sort weightCompare ?scan)
                      = filter (\<lambda>e. weight e = k) ?scan"
    by (simp add: filter_js_sort)
  ultimately show ?thesis by blast
qed

theorem makeSequence_stable_witness:
  "scanEntries exampleWorld ''/docs/ties''
       [\<lparr> d_name = ''first'', isDirectory = True \<rparr>,
        \<lparr> d_name = ''low'', isDirectory = True \<rparr>,
        \<lparr> d_name = ''second'', isDirectory = True \<rparr>]
     = [\<lparr> slug = Some ''Ties/First'', weight = 1 \<rparr>,
        \<lparr> slug = Some ''Ties/Low'', weight = 0 \<rparr>,
        \<lparr> slug = Some ''Ties/Second'', weight = 1 \<rparr>]
   \<and> makeSequence exampleWorld ''/docs/ties''
       = Inr [\<lparr> slug = Some ''Ties/Low'', weight = 0 \<rparr>,
              \<lparr> slug = Some ''Ties/First'', weight = 1 \<rparr>,
              \<lparr> slug = Some ''Ties/Second'', weight = 1 \<rparr>]
   \<and> (\<exists>s. makeSequence exampleWorld ''/docs/ties'' = Inr s
          \<and> filter (\<lambda>e. weight e = 1) s
              = [\<lparr> slug = Some ''Ties/First'', weight = 1 \<rparr>,
                 \<lparr> slug = Some ''Ties/Second'', weight = 1 \<rparr>])"
proof -
  let ?first = "\<lparr> d_name = ''first'', isDirectory = True \<rparr>"
  let ?low = "\<lparr> d_name = ''low'', isDirectory = True \<rparr>"
  let ?second = "\<lparr> d_name = ''second'', isDirectory = True \<rparr>"
  have dir: "readdirSync exampleWorld ''/docs/ties'' = Some [?first, ?low, ?second]"
    by (simp add: example_defs)
  have ch: "[?first, ?low, ?second] = filter isDirectory [?first, ?low, ?second]"
    by simp
  have all: "\<forall>c \<in> set [?first, ?low, ?second]. contributes exampleWorld ''/docs/ties'' c"
    by (simp add: contributes_def example_defs)
  have scan: "scanEntries exampleWorld ''/docs/ties'' [?first, ?low, ?second]
     = [\<lparr> slug = Some ''Ties/First'', weight = 1 \<rparr>,
        \<lparr> slug = Some ''Ties/Low'', weight = 0 \<rparr>,
        \<lparr> slug = Some ''Ties/Second'', weight = 1 \<rparr>]"
    by (simp add: scanEntries_def visitChild_def childEntry_def example_defs)
  have run: "makeSequence exampleWorld ''/docs/ties''
       = Inr [\<lparr> slug = Some ''Ties/Low'', weight = 0 \<rparr>,
              \<lparr> slug = Some ''Ties/First'', weight = 1 \<rparr>,
              \<lparr> slug = Some ''Ties/Second'', weight = 1 \<rparr>]"
    by (simp add: makeSequence_def scanEntries_def visitChild_def childEntry_def js_sort_def
        weightCompare_def example_defs)
  obtain s where s: "makeSequence exampleWorld ''/docs/ties'' = Inr s"
    and st: "\<forall>k. filter (\<lambda>e. weight e = k) s
               = filter (\<lambda>e. weight e = k)
                   (scanEntries exampleWorld ''/docs/ties'' [?first, ?low, ?second])"
    using makeSequence_stable [OF dir ch all] by blast
  have "filter (\<lambda>e. weight e = 1) s
          = [\<lparr> slug = Some ''Ties/First'', weight = 1 \<rparr>,
             \<lparr> slug = Some ''Ties/Second'', weight = 1 \<rparr>]"
    using st [rule_format, of 1] by (simp add: scan)
  with s scan run show ?thesis by blast
qed

section \<open>A guide without a slug still makes an entry\<close>

text \<open>
  Claim C9. A child whose front matter has page type "guide" and a weight, and no slug,
  pushes the entry whose slug is \<^verbatim>\<open>undefined\<close>: it counts as a contributing child, its
  entry is among those the scan collects, and when all children contribute the entry is
  in the sequence that \<^verbatim>\<open>makeSequence\<close> returns.
\<close>

theorem makeSequence_keeps_entry_without_slug:
  assumes "readdirSync w parent = Some entries"
    and "children = filter isDirectory entries"
    and "child \<in> set children"
    and "readFileSync w (path_join w [parent, d_name child, ''index.md'']) = Some contents"
    and "frontmatter w contents = Some matter"
    and "page_type matter = Some ''guide''"
    and "matter_weight matter = Some wt"
    and "matter_slug matter = None"
  shows "childEntry w parent child = Some \<lparr> slug = None, weight = wt \<rparr>
         \<and> contributes w parent child
         \<and> \<lparr> slug = None, weight = wt \<rparr> \<in> set (scanEntries w parent children)
         \<and> ((\<forall>c \<in> set children. contributes w parent c) \<longrightarrow>
              (\<exists>s. makeSequence w parent = Inr s
                 \<and> length s = length children
                 \<and> \<lparr> slug = None, weight = wt \<rparr> \<in> set s))"
proof -
  let ?e = "\<lparr> slug = None, weight = wt \<rparr>"
  have entry: "childEntry w parent child = Some ?e"
    using assms(4-8) by (simp add: childEntry_def)
  then have contrib: "contributes w parent child"
    by (simp add: contributes_iff)
  have scan: "?e \<in> set (scanEntries w parent children)"
    using entry assms(3) by (simp add: scanEntries_map_filter map_filter_member)
  have "\<exists>s. makeSequence w parent = Inr s \<and> length s = length children \<and> ?e \<in> set s"
    if all: "\<forall>c \<in> set children. contributes w parent c"
  proof -
    let ?s = "js_sort weightCompare (scanEntries w parent children)"
    have "makeSequence w parent = Inr ?s"
      using assms(1) all unfolding assms(2) by (rule makeSequence_valid)
    moreover have "length ?s = length children"
      using arg_cong [OF scanEntries_all [OF all], of length] by (simp add: length_js_sort)
    moreover have "?e \<in> set ?s"
      using scan by (simp add: set_js_sort)
    ultimately show ?thesis by blast
  qed
  with entry contrib scan show ?thesis by blast
qed

theorem makeSequence_keeps_entry_without_slug_witness:
  "childEntry exampleWorld ''/docs/noslug'' \<lparr> d_name = ''page'', isDirectory = True \<rparr>
     = Some \<lparr> slug = None, weight = 3 \<rparr>
   \<and> contributes exampleWorld ''/docs/noslug'' \<lparr> d_name = ''page'', isDirectory = True \<rparr>
   \<and> makeSequence exampleWorld ''/docs/noslug'' = Inr [\<lparr> slug = None, weight = 3 \<rparr>]"
proof -
  let ?page = "\<lparr> d_name = ''page'', isDirectory = True \<rparr>"
  let ?matter = "\<lparr> page_type = Some ''guide'', matter_weight = Some 3, matter_slug = None \<rparr>"
  have dir: "readdirSync exampleWorld ''/docs/noslug'' = Some [?page]"
    by (simp add: example_defs)
  have ch: "[?page] = filter isDirectory [?page]"
    by simp
  have mem: "?page \<in> set [?page]"
    by simp
  have rd: "readFileSync exampleWorld
                (path_join exampleWorld [''/docs/noslug'', d_name ?page, ''index.md''])
              = Some ''noslug-page''"
    by (simp add: example_defs)
  have parse: "frontmatter exampleWorld ''noslug-page'' = Some ?matter"
    by (simp add: example_defs)
  have run: "makeSequence exampleWorld ''/docs/noslug'' = Inr [\<lparr> slug = None, weight = 3 \<rparr>]"
    by (simp add: makeSequence_def scanEntries_def visitChild_def childEntry_def js_sort_def
        example_defs)
  show ?thesis
    using makeSequence_keeps_entry_without_slug [OF dir ch mem rd parse, of 3] run by simp
qed

section \<open>The cache scans a directory once\<close>

lemma cachedSequence_hit:
  "pageSequences st parent = Some s \<Longrightarrow> cachedSequence w st parent = Inr (s, st)"
  by (simp add: cachedSequence_def)

lemma makeSequence_returns:
  "readdirSync w parent \<noteq> None \<Longrightarrow> \<exists>s. makeSequence w parent = Inr s"
  by (auto simp: makeSequence_def Let_def)

text \<open>
  Claim C3. Take a parent key whose directory can be scanned or that is already in the
  cache. The first lookup returns a sequence and leaves it stored under the key, the
  empty sequence like any other; it scans exactly when the key had no value. A second
  lookup of the same key returns the same sequence and the same state, with no further
  scan recorded, in whatever world it runs (the files may have changed, or be gone). A
  key that has a value is answered from the cache without a change of state.
\<close>

theorem cachedSequence_scans_once:
  assumes "readdirSync w parent \<noteq> None \<or> pageSequences st parent \<noteq> None"
  shows "\<exists>s1 st1.
           cachedSequence w st parent = Inr (s1, st1)
         \<and> (\<forall>w'. cachedSequence w' st1 parent = Inr (s1, st1))
         \<and> pageSequences st1 parent = Some s1
         \<and> scanned st1 = (if pageSequences st parent = None then scanned st @ [parent]
                           else scanned st)
         \<and> (pageSequences st parent = None \<longrightarrow> makeSequence w parent = Inr s1)
         \<and> (\<forall>s. pageSequences st parent = Some s \<longrightarrow> s1 = s \<and> st1 = st)"
proof (cases "pageSequences st parent")
  case (Some s)
  then have "cachedSequence w' st parent = Inr (s, st)" for w'
    by (rule cachedSequence_hit)
  with Some show ?thesis by simp
next
  case None
  then have "readdirSync w parent \<noteq> None"
    using assms by simp
  then obtain s where s: "makeSequence w parent = Inr s"
    using makeSequence_returns by blast
  let ?st1 = "st \<lparr> pageSequences := (pageSequences st)(parent \<mapsto> s),
                    scanned := scanned st @ [parent] \<rparr>"
  have first: "cachedSequence w st parent = Inr (s, ?st1)"
    using None s by (simp add: cachedSequence_def)
  have stored: "pageSequences ?st1 parent = Some s"
    by simp
  then have "cachedSequence w' ?st1 parent = Inr (s, ?st1)" for w'
    by (rule cachedSequence_hit)
  with first stored None s show ?thesis by simp
qed

theorem cachedSequence_scans_once_witness:
  "cachedSequence exampleWorld \<lparr> pageSequences = Map.empty, scanned = [] \<rparr> ''/docs/mixed''
     = Inr ([], \<lparr> pageSequences = [''/docs/mixed'' \<mapsto> []], scanned = [''/docs/mixed''] \<rparr>)
   \<and> cachedSequence deadWorld
         \<lparr> pageSequences = [''/docs/mixed'' \<mapsto> []], scanned = [''/docs/mixed''] \<rparr> ''/docs/mixed''
     = Inr ([], \<lparr> pageSequences = [''/docs/mixed'' \<mapsto> []], scanned = [''/docs/mixed''] \<rparr>)"
proof -
  let ?st = "\<lparr> pageSequences = Map.empty, scanned = [] \<rparr>"
  let ?st1 = "\<lparr> pageSequences = [''/docs/mixed'' \<mapsto> []], scanned = [''/docs/mixed''] \<rparr>"
  have "readdirSync exampleWorld ''/docs/mixed'' \<noteq> None"
    by (simp add: example_defs)
  then have pre: "readdirSync exampleWorld ''/docs/mixed'' \<noteq> None
                    \<or> pageSequences ?st ''/docs/mixed'' \<noteq> None"
    by simp
  have run: "makeSequence exampleWorld ''/docs/mixed'' = Inr []"
    by (simp add: makeSequence_def scanEntries_def visitChild_def childEntry_def js_sort_def
        example_defs)
  then have first: "cachedSequence exampleWorld ?st ''/docs/mixed'' = Inr ([], ?st1)"
    by (simp add: cachedSequence_def)
  obtain s1 st1 where a: "cachedSequence exampleWorld ?st ''/docs/mixed'' = Inr (s1, st1)"
    and b: "\<forall>w'. cachedSequence w' st1 ''/docs/mixed'' = Inr (s1, st1)"
    using cachedSequence_scans_once [OF pre] by blast
  from a first have "s1 = []" and "st1 = ?st1"
    by simp_all
  with b have "cachedSequence deadWorld ?st1 ''/docs/mixed'' = Inr ([], ?st1)"
    by simp
  with first show ?thesis by simp
qed

text \<open>
  For \<^verbatim>\<open>injectPreviousNext\<close>: a page whose parent is in the cache is rendered from the
  cached sequence, and the state stays as it is.
\<close>

lemma injectPreviousNext_cached:
  assumes "pageSequences st (path_join w [fi_root fileInfo, fi_folder fileInfo, ''../''])
             = Some sequence"
  shows "injectPreviousNext w st doc loc fileInfo s
           = Inr (renderButtons doc loc s (getPreviousNextEntries s sequence), st)"
  using assms by (simp add: injectPreviousNext_def cachedSequence_def)

section \<open>The buttons\<close>

lemma js_split_nonempty: "js_split c s \<noteq> []"
  by (induction s) (auto split: list.split)

lemma js_split_no_sep: "c \<notin> set s \<Longrightarrow> js_split c s = [s]"
  by (induction s) auto

lemma js_split_append:
  "c \<notin> set seg \<Longrightarrow> js_split c (p @ c # seg) = js_split c p @ [seg]"
proof (induction p)
  case Nil
  then show ?case by (simp add: js_split_no_sep)
next
  case (Cons x p)
  then show ?case
    using js_split_nonempty [of c p] by (cases "js_split c p") auto
qed

lemma js_join_split: "js_join [c] (js_split c s) = s"
proof (induction s)
  case Nil
  show ?case by simp
next
  case (Cons x s)
  obtain seg segs where sp: "js_split c s = seg # segs"
    using js_split_nonempty [of c s] by (cases "js_split c s") auto
  show ?case
    using Cons sp by (cases segs) auto
qed

lemma parentSlug_last_segment:
  "CHR ''/'' \<notin> set seg \<Longrightarrow> parentSlug (p @ ''/'' @ seg) = p"
  by (simp add: parentSlug_def js_split_append js_join_split)

lemma parentSlug_single_segment:
  "CHR ''/'' \<notin> set s \<Longrightarrow> parentSlug s = []"
  by (simp add: parentSlug_def js_split_no_sep)

text \<open>
  Claim C10. When \<^verbatim>\<open>previous\<close> and \<^verbatim>\<open>next\<close> are both \<^verbatim>\<open>null\<close>, \<^verbatim>\<open>renderButtons\<close> leaves the
  document as it is. When one of them is not, it prepends one list, made of the Previous
  button if there is a previous entry, then the Overview button, then the Next button if
  there is a next entry; the Overview button links to the parent slug, which is the slug
  without its last segment (the empty slug when the slug has a single segment).
\<close>

theorem renderButtons_frame_and_overview:
  \<open>(previous pn = None \<and> next pn = None \<longrightarrow> renderButtons doc loc s pn = doc)
   \<and> (previous pn \<noteq> None \<or> next pn \<noteq> None \<longrightarrow>
        renderButtons doc loc s pn
          = (''<ul class="prev-next">''
             @ (case previous pn of None \<Rightarrow> [] | Some p \<Rightarrow> renderButton loc (slug p) ''Previous'')
             @ renderButton loc (Some (parentSlug s)) ''Overview''
             @ (case next pn of None \<Rightarrow> [] | Some n \<Rightarrow> renderButton loc (slug n) ''Next'')
             @ ''</ul>'') # doc)
   \<and> (\<forall>p seg. s = p @ ''/'' @ seg \<and> CHR ''/'' \<notin> set seg \<longrightarrow> parentSlug s = p)
   \<and> (CHR ''/'' \<notin> set s \<longrightarrow> parentSlug s = [])\<close>
proof -
  have frame: "renderButtons doc loc s pn = doc" if "previous pn = None \<and> next pn = None"
    using that by (simp add: renderButtons_def)
  have shown: \<open>renderButtons doc loc s pn
          = (''<ul class="prev-next">''
             @ (case previous pn of None \<Rightarrow> [] | Some p \<Rightarrow> renderButton loc (slug p) ''Previous'')
             @ renderButton loc (Some (parentSlug s)) ''Overview''
             @ (case next pn of None \<Rightarrow> [] | Some n \<Rightarrow> renderButton loc (slug n) ''Next'')
             @ ''</ul>'') # doc\<close>
    if "previous pn \<noteq> None \<or> next pn \<noteq> None"
    using that by (auto simp: renderButtons_def split: option.split)
  have parent: "parentSlug s = p" if "s = p @ ''/'' @ seg \<and> CHR ''/'' \<notin> set seg" for p seg
    using that parentSlug_last_segment [of seg p] by simp
  have top: "parentSlug s = []" if "CHR ''/'' \<notin> set s"
    using that by (rule parentSlug_single_segment)
  from frame shown parent top show ?thesis by blast
qed

theorem renderButtons_frame_and_overview_witness:
  \<open>renderButtons [''<p>text</p>''] ''en-US'' ''Ok/Zeta'' \<lparr> previous = None, next = None \<rparr>
     = [''<p>text</p>'']
   \<and> renderButtons [''<p>text</p>''] ''en-US'' ''Ok/Zeta''
         \<lparr> previous = Some \<lparr> slug = Some ''Ok/Alpha'', weight = 1 \<rparr>, next = None \<rparr>
     = [''<ul class="prev-next">''
        @ ''<li><a class="button secondary"href="/en-US/docs/Ok/Alpha">''
        @ ''<span class="button-wrap"> Previous </span></a></li>''
        @ ''<li><a class="button secondary"href="/en-US/docs/Ok">''
        @ ''<span class="button-wrap"> Overview </span></a></li>''
        @ ''</ul>'',
        ''<p>text</p>'']
   \<and> parentSlug ''Ok/Zeta'' = ''Ok''\<close>
proof -
  have sl: "''Ok/Zeta'' = ''Ok'' @ ''/'' @ ''Zeta'' \<and> CHR ''/'' \<notin> set ''Zeta''"
    by simp
  have ps: "parentSlug ''Ok/Zeta'' = ''Ok''"
    using renderButtons_frame_and_overview
            [of "\<lparr> previous = None, next = None \<rparr>" "[''<p>text</p>'']" "''en-US''" "''Ok/Zeta''"]
          sl
    by blast
  have none: "renderButtons [''<p>text</p>''] ''en-US'' ''Ok/Zeta'' \<lparr> previous = None, next = None \<rparr>
                = [''<p>text</p>'']"
    using renderButtons_frame_and_overview
            [of "\<lparr> previous = None, next = None \<rparr>" "[''<p>text</p>'']" "''en-US''" "''Ok/Zeta''"]
    by simp
  have some: \<open>renderButtons [''<p>text</p>''] ''en-US'' ''Ok/Zeta''
         \<lparr> previous = Some \<lparr> slug = Some ''Ok/Alpha'', weight = 1 \<rparr>, next = None \<rparr>
     = [''<ul class="prev-next">''
        @ renderButton ''en-US'' (Some ''Ok/Alpha'') ''Previous''
        @ renderButton ''en-US'' (Some (parentSlug ''Ok/Zeta'')) ''Overview''
        @ ''</ul>'',
        ''<p>text</p>'']\<close>
    using renderButtons_frame_and_overview
            [of "\<lparr> previous = Some \<lparr> slug = Some ''Ok/Alpha'', weight = 1 \<rparr>, next = None \<rparr>"
                "[''<p>text</p>'']" "''en-US''" "''Ok/Zeta''"]
    by simp
  show ?thesis
    using none some ps by (simp add: renderButton_def toString_def)
qed

section \<open>Banners\<close>

text \<open>
  An identifier without an entry in the table makes \<^verbatim>\<open>getL10nString\<close> throw, and the error
  passes through \<^verbatim>\<open>injectBanner\<close>. With an entry that has a string neither for the locale
  nor for the default locale, the lookup gives \<^verbatim>\<open>null\<close> and no banner is inserted.
\<close>

lemma getL10nString_missing_identifier:
  "map_of l10nStrings ident = None \<Longrightarrow> getL10nString w l10nStrings ident loc = Inl TypeError"
  by (simp add: getL10nString_def)

lemma injectBanner_missing_identifier:
  "map_of l10nStrings ident = None \<Longrightarrow>
   injectBanner w l10nStrings doc loc ident bannerClass = Inl TypeError"
  by (simp add: injectBanner_def getL10nString_def)

lemma injectBanner_no_message:
  assumes "map_of l10nStrings ident = Some block"
    and "map_of block loc = None" and "map_of block (DEFAULT_LOCALE w) = None"
  shows "getL10nString w l10nStrings ident loc = Inr None"
    and "injectBanner w l10nStrings doc loc ident bannerClass = Inr doc"
  using assms by (simp_all add: injectBanner_def getL10nString_def)

text \<open>
  Claim C4 says that a banner whose message cannot be found is skipped without an error,
  also when the identifier has no entry in the table. With the table
  \<^verbatim>\<open>{"SecureContextBanner": {"en-US": "Secure context."}}\<close> the call
  \<^verbatim>\<open>injectBanner($, "en-US", "DeprecatedBanner", "deprecated")\<close> throws a \<^verbatim>\<open>TypeError\<close>.
\<close>

theorem missing_identifier_throws_TypeError:
  "injectBanner w [(''SecureContextBanner'', [(''en-US'', ''Secure context.'')])] doc
     ''en-US'' ''DeprecatedBanner'' ''deprecated'' = Inl TypeError"
  by (simp add: injectBanner_def getL10nString_def)

text \<open>
  The same through \<^verbatim>\<open>injectBanners\<close>: the table in memory has no entry for the deprecated
  banner, the page is experimental and deprecated, and the call ends in the error.
\<close>

lemma injectBanners_missing_identifier:
  "injectBanners exampleWorld [(''ExperimentalBanner'', [(''en-US'', ''Experimental.'')])]
      [''<p>text</p>''] ''/docs'' ''en-US''
      \<lparr> security_requirements = None, browser_compat = Some (BcdString ''api.Foo'') \<rparr>
     = Inl TypeError"
  by (simp add: injectBanners_def initL10nStrings_def secureBanner_def bcdBanners_def
      injectBanner_def getL10nString_def exampleWorld_def)

lemma secureBanner_browser_compat:
  "secureBanner w table doc loc (metadata \<lparr> browser_compat := v \<rparr>)
     = secureBanner w table doc loc metadata"
  by (simp add: secureBanner_def)

lemma injectBanner_resolver:
  "injectBanner (w \<lparr> packageBCD := resolver \<rparr>) table doc loc ident cls
     = injectBanner w table doc loc ident cls"
  by (simp add: injectBanner_def getL10nString_def cong: option.case_cong)

text \<open>
  Claim C7. When \<^verbatim>\<open>browser-compat\<close> is an array, \<^verbatim>\<open>injectBanners\<close> does what the loading of
  the table and the secure-context step do and nothing more: no experimental and no
  deprecated banner, whatever the resolver would answer, and the same result as for a
  page without \<^verbatim>\<open>browser-compat\<close>. The secure-context step does not look at the value.
\<close>

theorem injectBanners_array_no_compat_banners:
  "injectBanners w l10nStrings doc rt loc (metadata \<lparr> browser_compat := Some (BcdArray queries) \<rparr>)
     = (case initL10nStrings w rt l10nStrings of
          Inl e \<Rightarrow> Inl e
        | Inr table \<Rightarrow>
            (case secureBanner w table doc loc metadata of
               Inl e \<Rightarrow> Inl e
             | Inr doc1 \<Rightarrow> Inr (doc1, table)))
   \<and> injectBanners (w \<lparr> packageBCD := resolver \<rparr>) l10nStrings doc rt loc
         (metadata \<lparr> browser_compat := Some (BcdArray queries) \<rparr>)
     = injectBanners w l10nStrings doc rt loc
         (metadata \<lparr> browser_compat := Some (BcdArray queries) \<rparr>)
   \<and> injectBanners w l10nStrings doc rt loc (metadata \<lparr> browser_compat := Some (BcdArray queries) \<rparr>)
     = injectBanners w l10nStrings doc rt loc (metadata \<lparr> browser_compat := None \<rparr>)"
proof -
  have init: "initL10nStrings (w \<lparr> packageBCD := resolver \<rparr>) rt l10nStrings
                = initL10nStrings w rt l10nStrings"
    by (simp add: initL10nStrings_def cong: option.case_cong)
  have sec: "secureBanner (w \<lparr> packageBCD := resolver \<rparr>) table d loc m
               = secureBanner w table d loc m" for table d m
    by (simp add: secureBanner_def injectBanner_resolver split: option.split)
  show ?thesis
    by (simp add: injectBanners_def secureBanner_browser_compat init sec
        cong: sum.case_cong)
qed

theorem injectBanners_array_no_compat_banners_witness:
  \<open>injectBanners exampleWorld [] [''<p>text</p>''] ''/docs'' ''fr''
      \<lparr> security_requirements = Some [''secure-context''],
        browser_compat = Some (BcdArray [''api.Foo'']) \<rparr>
     = Inr ([''<div class="notecard secure">Contexte securise.</div>'', ''<p>text</p>''],
            exampleTable)\<close>
proof -
  have init: "initL10nStrings exampleWorld ''/docs'' [] = Inr exampleTable"
    by (simp add: initL10nStrings_def exampleWorld_def exampleFiles_def)
  have sec: \<open>secureBanner exampleWorld exampleTable [''<p>text</p>''] ''fr''
               \<lparr> security_requirements = Some [''secure-context''], browser_compat = None \<rparr>
             = Inr [''<div class="notecard secure">Contexte securise.</div>'', ''<p>text</p>'']\<close>
    by (simp add: secureBanner_def injectBanner_def getL10nString_def exampleTable_def)
  show ?thesis
    using injectBanners_array_no_compat_banners
            [where w = exampleWorld and ?l10nStrings = "[]" and doc = "[''<p>text</p>'']"
               and rt = "''/docs''" and loc = "''fr''" and queries = "[''api.Foo'']"
               and metadata = "\<lparr> security_requirements = Some [''secure-context''],
                                 browser_compat = None \<rparr>"]
    by (simp add: init sec)
qed

text \<open>
  Claim C8. Let the table be loaded and the secure-context step leave the document
  \<open>doc1\<close>. When \<^verbatim>\<open>browser-compat\<close> is a query string (not empty) whose resolved status is both
  experimental and deprecated, and both messages are found and not empty, the experimental
  banner is inserted first and the deprecated banner after it. Each is prepended, so in
  the resulting document the deprecated banner stands in front of the experimental one.
\<close>

theorem injectBanners_experimental_then_deprecated:
  assumes "initL10nStrings w rt l10nStrings = Inr table"
    and "secureBanner w table doc loc metadata = Inr doc1"
    and "browser_compat metadata = Some (BcdString bcdQuery)"
    and "bcdQuery \<noteq> []"
    and "packageBCD w bcdQuery = Some status"
    and "experimental status" and "deprecated status"
    and "getL10nString w table ''ExperimentalBanner'' loc = Inr (Some m1)" and "m1 \<noteq> []"
    and "getL10nString w table ''DeprecatedBanner'' loc = Inr (Some m2)" and "m2 \<noteq> []"
  shows \<open>injectBanner w table doc1 loc ''ExperimentalBanner'' ''experimental''
           = Inr ((''<div class="notecard experimental">'' @ m1 @ ''</div>'') # doc1)
         \<and> injectBanner w table
               ((''<div class="notecard experimental">'' @ m1 @ ''</div>'') # doc1)
               loc ''DeprecatedBanner'' ''deprecated''
           = Inr ((''<div class="notecard deprecated">'' @ m2 @ ''</div>'')
                  # (''<div class="notecard experimental">'' @ m1 @ ''</div>'') # doc1)
         \<and> injectBanners w l10nStrings doc rt loc metadata
           = Inr ((''<div class="notecard deprecated">'' @ m2 @ ''</div>'')
                  # (''<div class="notecard experimental">'' @ m1 @ ''</div>'') # doc1,
                  table)\<close>
proof -
  let ?exp = \<open>''<div class="notecard experimental">'' @ m1 @ ''</div>''\<close>
  let ?dep = \<open>''<div class="notecard deprecated">'' @ m2 @ ''</div>''\<close>
  have e: "injectBanner w table doc1 loc ''ExperimentalBanner'' ''experimental''
             = Inr (?exp # doc1)"
    using assms(8,9) by (simp add: injectBanner_def)
  have d: "injectBanner w table (?exp # doc1) loc ''DeprecatedBanner'' ''deprecated''
             = Inr (?dep # ?exp # doc1)"
    using assms(10,11) by (simp add: injectBanner_def)
  have "bcdBanners w table doc1 loc bcdQuery = Inr (?dep # ?exp # doc1)"
    using assms(5-7) e d by (simp add: bcdBanners_def)
  then have "injectBanners w l10nStrings doc rt loc metadata = Inr (?dep # ?exp # doc1, table)"
    using assms(1-4) by (simp add: injectBanners_def)
  with e d show ?thesis by simp
qed

theorem injectBanners_experimental_then_deprecated_witness:
  \<open>injectBanners exampleWorld [] [''<p>text</p>''] ''/docs'' ''fr''
      \<lparr> security_requirements = None, browser_compat = Some (BcdString ''api.Foo'') \<rparr>
     = Inr ([''<div class="notecard deprecated">Deprecated.</div>'',
             ''<div class="notecard experimental">Experimental.</div>'',
             ''<p>text</p>''],
            exampleTable)\<close>
proof -
  let ?md = "\<lparr> security_requirements = None, browser_compat = Some (BcdString ''api.Foo'') \<rparr>"
  have init: "initL10nStrings exampleWorld ''/docs'' [] = Inr exampleTable"
    by (simp add: initL10nStrings_def exampleWorld_def exampleFiles_def)
  have sec: "secureBanner exampleWorld exampleTable [''<p>text</p>''] ''fr'' ?md
               = Inr [''<p>text</p>'']"
    by (simp add: secureBanner_def)
  have bc: "browser_compat ?md = Some (BcdString ''api.Foo'')"
    by simp
  have q: "''api.Foo'' \<noteq> []"
    by simp
  have res: "packageBCD exampleWorld ''api.Foo'' = Some \<lparr> experimental = True, deprecated = True \<rparr>"
    by (simp add: exampleWorld_def)
  have ex: "experimental \<lparr> experimental = True, deprecated = True \<rparr>"
    and de: "deprecated \<lparr> experimental = True, deprecated = True \<rparr>"
    by simp_all
  have m1: "getL10nString exampleWorld exampleTable ''ExperimentalBanner'' ''fr''
              = Inr (Some ''Experimental.'')"
    by (simp add: getL10nString_def exampleTable_def exampleWorld_def)
  have m2: "getL10nString exampleWorld exampleTable ''DeprecatedBanner'' ''fr''
              = Inr (Some ''Deprecated.'')"
    by (simp add: getL10nString_def exampleTable_def exampleWorld_def)
  have n1: "''Experimental.'' \<noteq> []" and n2: "''Deprecated.'' \<noteq> []"
    by simp_all
  show ?thesis
    using injectBanners_experimental_then_deprecated [OF init sec bc q res ex de m1 n1 m2 n2]
    by simp
qed

end
